theory Spec2Isabelle
  imports Main
begin

section \<open>Python values the commands use\<close>

text \<open>
  The model is CPython 3.11 with its default settings. A Python \<open>str\<close> is a
  \<open>string\<close>, one \<open>char\<close> per code point; the model covers the code points below 256.
  The integers are Python's unbounded ones, \<open>int\<close>; a conversion between \<open>int\<close> and
  \<open>str\<close> of more than 4300 digits raises, as \<open>sys.int_info.default_max_str_digits\<close>
  has it.
\<close>

text \<open>
  The exceptions the code can meet, all subclasses of \<open>Exception\<close>. \<open>ValueError\<close>,
  \<open>AttributeError\<close> and \<open>IndexError\<close> carry their message, \<open>UnboundLocalError\<close> the
  name of the local variable read before its assignment, and \<open>Raised\<close> is an exception
  of a collaborator (\<open>run_cmd\<close>, \<open>json\<close>, \<open>DockerHelper\<close>) with its message.
\<close>

datatype exc =
    ValueError string
  | AttributeError string
  | IndexError string
  | UnboundLocalError string
  | Raised string

text \<open>\<open>str(err)\<close>, as the f-strings of the handlers render an exception.\<close>

fun str_exc :: "exc \<Rightarrow> string" where
  "str_exc (ValueError m) = m"
| "str_exc (AttributeError m) = m"
| "str_exc (IndexError m) = m"
| "str_exc (UnboundLocalError v) =
     ''cannot access local variable '' @ [CHR 0x27] @ v @ [CHR 0x27]
       @ '' where it is not associated with a value''"
| "str_exc (Raised m) = m"

text \<open>
  Code that may raise is a computation in \<open>exc + 'a\<close>: \<open>bind_exc\<close> runs the next
  statement unless the one before raised, and \<open>catch_exc\<close> is a \<open>try\<close> block with
  \<open>except Exception as err\<close>.
\<close>

definition bind_exc :: "exc + 'a \<Rightarrow> ('a \<Rightarrow> exc + 'b) \<Rightarrow> exc + 'b" where
  "bind_exc m f = (case m of Inl e \<Rightarrow> Inl e | Inr x \<Rightarrow> f x)"

definition catch_exc :: "exc + 'a \<Rightarrow> (exc \<Rightarrow> exc + 'a) \<Rightarrow> exc + 'a" where
  "catch_exc m h = (case m of Inl e \<Rightarrow> h e | Inr x \<Rightarrow> Inr x)"

text \<open>The values an f-string of the commands renders or a step takes as argument.\<close>

datatype pyval = PyBool bool | PyInt int | PyStr string

definition is_digit :: "char \<Rightarrow> bool" where
  "is_digit c = (48 \<le> (of_char c :: nat) \<and> (of_char c :: nat) \<le> 57)"

text \<open>\<open>str.isspace\<close> on the code points below 256.\<close>

definition isspace :: "char \<Rightarrow> bool" where
  "isspace c =
     (let n = (of_char c :: nat)
      in (9 \<le> n \<and> n \<le> 13) \<or> (28 \<le> n \<and> n \<le> 32) \<or> n = 133 \<or> n = 160)"

text \<open>\<open>s.strip()\<close>: leading and trailing whitespace removed.\<close>

definition py_strip :: "string \<Rightarrow> string" where
  "py_strip s = rev (dropWhile isspace (rev (dropWhile isspace s)))"

text \<open>
  \<open>s.split(sep)\<close> for a separator of one character: every occurrence of the separator
  ends a part, so a string with \<open>n\<close> separators has \<open>n + 1\<close> parts, empty ones included.
\<close>

fun py_split :: "char \<Rightarrow> string \<Rightarrow> string list" where
  "py_split sep [] = [[]]"
| "py_split sep (c # cs) =
     (if c = sep then [] # py_split sep cs
      else (case py_split sep cs of
              [] \<Rightarrow> [[c]]
            | p # ps \<Rightarrow> (c # p) # ps))"

subsection \<open>Rendering: \<open>str\<close> and \<open>repr\<close>\<close>

fun str_nat :: "nat \<Rightarrow> string" where
  "str_nat n =
     (if n < 10 then [char_of (48 + n)]
      else str_nat (n div 10) @ [char_of (48 + n mod 10)])"

declare str_nat.simps [simp del]

text \<open>
  \<open>str\<close> of an integer, which an f-string and \<open>format\<close> call for an \<open>int\<close>: the decimal
  numeral, or \<open>ValueError\<close> when it has more than \<open>int_max_str_digits\<close> digits (the
  sign is not counted).
\<close>

definition int_max_str_digits :: nat where
  "int_max_str_digits = 4300"

definition dec_int :: "int \<Rightarrow> string" where
  "dec_int i = (if i < 0 then CHR ''-'' # str_nat (nat (- i)) else str_nat (nat i))"

definition fits_str_digits :: "int \<Rightarrow> bool" where
  "fits_str_digits i = (length (str_nat (nat \<bar>i\<bar>)) \<le> int_max_str_digits)"

definition str_exceeds_limit :: exc where
  "str_exceeds_limit =
     ValueError (''Exceeds the limit ('' @ str_nat int_max_str_digits
       @ '' digits) for integer string conversion; use sys.set_int_max_str_digits() to increase the limit'')"

definition str_int :: "int \<Rightarrow> exc + string" where
  "str_int i = (if fits_str_digits i then Inr (dec_int i) else Inl str_exceeds_limit)"

text \<open>
  \<open>', '.join(...)\<close> and the \<open>str\<close> of a list of integers, \<open>[14, 4, 0]\<close>, its elements
  rendered from left to right.
\<close>

fun join_comma :: "string list \<Rightarrow> string" where
  "join_comma [] = []"
| "join_comma [x] = x"
| "join_comma (x # y # ys) = x @ '', '' @ join_comma (y # ys)"

fun strs_of :: "int list \<Rightarrow> exc + string list" where
  "strs_of [] = Inr []"
| "strs_of (i # is) =
     bind_exc (str_int i) (\<lambda>s. bind_exc (strs_of is) (\<lambda>ss. Inr (s # ss)))"

definition str_int_list :: "int list \<Rightarrow> exc + string" where
  "str_int_list xs = bind_exc (strs_of xs) (\<lambda>ss. Inr (''['' @ join_comma ss @ '']''))"

text \<open>The rendering of a value in an f-string.\<close>

definition str_pyval :: "pyval \<Rightarrow> exc + string" where
  "str_pyval v =
     (case v of
        PyBool b \<Rightarrow> Inr (if b then ''True'' else ''False'')
      | PyInt i \<Rightarrow> str_int i
      | PyStr s \<Rightarrow> Inr s)"

text \<open>
  \<open>repr\<close> of a \<open>str\<close>: single quotes, unless the string has a single quote and no
  double quote; the quote and the backslash escaped, tab, newline and return by
  letter, every other non-printable code point as \<open>\xNN\<close>.
\<close>

definition hex_digit :: "nat \<Rightarrow> char" where
  "hex_digit n = (if n < 10 then char_of (48 + n) else char_of (87 + n))"

definition printable :: "char \<Rightarrow> bool" where
  "printable c =
     (let n = (of_char c :: nat)
      in (32 \<le> n \<and> n < 127) \<or> (161 \<le> n \<and> n \<noteq> 173))"

definition repr_char :: "char \<Rightarrow> char \<Rightarrow> string" where
  "repr_char q c =
     (if c = q \<or> c = CHR 0x5C then [CHR 0x5C, c]
      else if c = CHR 0x09 then [CHR 0x5C, CHR ''t'']
      else if c = CHR 0x0A then [CHR 0x5C, CHR ''n'']
      else if c = CHR 0x0D then [CHR 0x5C, CHR ''r'']
      else if printable c then [c]
      else [CHR 0x5C, CHR ''x'', hex_digit (of_char c div 16), hex_digit (of_char c mod 16)])"

definition py_repr :: "string \<Rightarrow> string" where
  "py_repr s =
     (let q = (if CHR 0x27 \<in> set s \<and> CHR 0x22 \<notin> set s then CHR 0x22 else CHR 0x27)
      in q # concat (map (repr_char q) s) @ [q])"

subsection \<open>\<open>int(s)\<close>\<close>

text \<open>
  \<open>int\<close> of a string. Whitespace before and after the literal is skipped: the six
  ASCII characters of C's \<open>isspace\<close>, and the two spaces above 127, which \<open>int\<close>
  turns into blanks; the separators \<open>\x1c\<close> to \<open>\x1f\<close>, which \<open>strip\<close> removes, are
  not among them. One sign may lead. The digits may be grouped by single underscores
  between digits. The run of digits and underscores is scanned first; a run of more
  than \<open>int_max_str_digits\<close> digits raises before what follows it is looked at.
  Anything else raises \<open>ValueError\<close> with the \<open>repr\<close> of the whole argument, cut at
  200 characters.
\<close>

definition int_space :: "char \<Rightarrow> bool" where
  "int_space c =
     (let n = (of_char c :: nat)
      in (9 \<le> n \<and> n \<le> 13) \<or> n = 32 \<or> n = 133 \<or> n = 160)"

definition invalid_literal :: "string \<Rightarrow> exc" where
  "invalid_literal s =
     ValueError (''invalid literal for int() with base 10: '' @ take 200 (py_repr s))"

definition int_exceeds_limit :: "nat \<Rightarrow> exc" where
  "int_exceeds_limit digits =
     ValueError (''Exceeds the limit ('' @ str_nat int_max_str_digits
       @ '' digits) for integer string conversion: value has '' @ str_nat digits
       @ '' digits; use sys.set_int_max_str_digits() to increase the limit'')"

definition in_run :: "char \<Rightarrow> bool" where
  "in_run c = (is_digit c \<or> c = CHR ''_'')"

fun digits_ok :: "string \<Rightarrow> bool" where
  "digits_ok [] = False"
| "digits_ok [c] = is_digit c"
| "digits_ok (c # d # cs) =
     (is_digit c \<and> (if d = CHR ''_'' then digits_ok cs else digits_ok (d # cs)))"

definition digit_val :: "char \<Rightarrow> int" where
  "digit_val c = int (of_char c) - 48"

definition digits_val :: "string \<Rightarrow> int" where
  "digits_val s = foldl (\<lambda>acc c. acc * 10 + digit_val c) 0 (filter (\<lambda>c. c \<noteq> CHR ''_'') s)"

definition py_int :: "string \<Rightarrow> exc + int" where
  "py_int s =
     (let t = dropWhile int_space s;
          neg = (case t of [] \<Rightarrow> False | c # _ \<Rightarrow> c = CHR ''-'');
          body = (case t of [] \<Rightarrow> [] | c # r \<Rightarrow> if c = CHR ''-'' \<or> c = CHR ''+'' then r else t);
          run = takeWhile in_run body;
          rest = dropWhile in_run body;
          digits = length (filter is_digit run)
      in if \<not> digits_ok run then Inl (invalid_literal s)
         else if digits > int_max_str_digits then Inl (int_exceeds_limit digits)
         else if dropWhile int_space rest \<noteq> [] then Inl (invalid_literal s)
         else Inr (if neg then - digits_val run else digits_val run))"

text \<open>
  The list comprehension \<open>[int(num) for num in parts]\<close>: the first part that is no
  integer literal raises, and the parts after it are not read.
\<close>

fun ints_of :: "string list \<Rightarrow> exc + int list" where
  "ints_of [] = Inr []"
| "ints_of (p # ps) =
     (case py_int p of
        Inl e \<Rightarrow> Inl e
      | Inr n \<Rightarrow> (case ints_of ps of Inl e \<Rightarrow> Inl e | Inr ns \<Rightarrow> Inr (n # ns)))"

section \<open>The result of a check\<close>

text \<open>
  Modelled from the spec: \<open>ProcessResponse\<close> of \<open>helpers/process.py\<close>, which is not
  among the sources. The spec gives it the three fields \<open>output\<close> (here \<open>output'\<close>), \<open>error\<close> and
  \<open>status_code\<close>. A field is \<open>None\<close> where the constructor call does not pass it.
\<close>

record ProcessResponse =
  output' :: "string option"
  error :: "string option"
  status_code :: int



section \<open>Reading and comparing versions\<close>

text \<open>
  \<open>re.search(r"[0-9]*\.[0-9]*\.[0-9]*", string)\<close>. \<open>match_here\<close> is the match anchored at
  the head of the text: each \<open>[0-9]*\<close> takes the longest run of digits, and giving a
  digit back never helps, because the character after a shorter run is a digit and the
  pattern wants a dot there (or nothing, after the last group). \<open>re_search\<close> tries the
  positions from left to right, the empty rest included, and \<open>None\<close> is no match.
\<close>

definition match_here :: "string \<Rightarrow> string option" where
  "match_here s =
     (let d1 = takeWhile is_digit s in
      case dropWhile is_digit s of
        [] \<Rightarrow> None
      | c1 # r1 \<Rightarrow>
          if c1 \<noteq> CHR ''.'' then None
          else
            (let d2 = takeWhile is_digit r1 in
             case dropWhile is_digit r1 of
               [] \<Rightarrow> None
             | c2 # r2 \<Rightarrow>
                 if c2 \<noteq> CHR ''.'' then None
                 else Some (d1 @ ''.'' @ d2 @ ''.'' @ takeWhile is_digit r2)))"

fun re_search :: "string \<Rightarrow> string option" where
  "re_search [] = match_here []"
| "re_search (c # cs) =
     (case match_here (c # cs) of
        Some m \<Rightarrow> Some m
      | None \<Rightarrow> re_search cs)"

text \<open>
  \<open>_version_from_string\<close>: \<open>groups.group(0)\<close> on the match; with no match \<open>groups\<close> is
  \<open>None\<close> and the attribute access raises.
\<close>

definition version_from_string :: "string \<Rightarrow> exc + string" where
  "version_from_string s =
     (case re_search s of
        None \<Rightarrow> Inl (AttributeError
          ([CHR 0x27] @ ''NoneType'' @ [CHR 0x27] @ '' object has no attribute ''
             @ [CHR 0x27] @ ''group'' @ [CHR 0x27]))
      | Some m \<Rightarrow> Inr m)"

text \<open>The two comparisons of \<open>_check_version\<close>, on the three integers read.\<close>

definition version_ok :: "bool \<Rightarrow> int list \<Rightarrow> int \<Rightarrow> int \<Rightarrow> int \<Rightarrow> bool" where
  "version_ok exact parts major minor patch =
     (if exact then
        (let major_match = (parts ! 0 = major);
             minor_match = (minor = - 1 \<or> parts ! 1 = minor);
             patch_match = (patch = - 1 \<or> parts ! 2 = patch)
         in major_match \<and> minor_match \<and> patch_match)
      else
        (let major_higher = (parts ! 0 > major);
             major_ok = (parts ! 0 \<ge> major);
             minor_higher = (major_ok \<and> parts ! 1 > minor);
             minor_ok = (major_ok \<and> parts ! 1 \<ge> minor);
             patch_ok = (minor_ok \<and> parts ! 2 \<ge> patch)
         in major_higher \<or> minor_higher \<or> patch_ok))"

text \<open>
  The variable \<open>expected_version\<close> of lines 63 to 67: the integer \<open>major\<close> itself, or
  the string of the f-strings \<open>"{major}.{minor}"\<close> and \<open>"{major}.{minor}.{patch}"\<close>,
  the second built after the first.
\<close>

definition format_2 :: "int \<Rightarrow> int \<Rightarrow> exc + string" where
  "format_2 a b =
     bind_exc (str_int a) (\<lambda>x. bind_exc (str_int b) (\<lambda>y. Inr (x @ ''.'' @ y)))"

definition format_3 :: "int \<Rightarrow> int \<Rightarrow> int \<Rightarrow> exc + string" where
  "format_3 a b c =
     bind_exc (str_int a) (\<lambda>x. bind_exc (str_int b) (\<lambda>y. bind_exc (str_int c) (\<lambda>z.
       Inr (x @ ''.'' @ y @ ''.'' @ z))))"

definition expected_version :: "int \<Rightarrow> int \<Rightarrow> int \<Rightarrow> exc + pyval" where
  "expected_version major minor patch =
     (if minor > - 1 then
        bind_exc (format_2 major minor) (\<lambda>s2.
          if patch > - 1 then bind_exc (format_3 major minor patch) (\<lambda>s3. Inr (PyStr s3))
          else Inr (PyStr s2))
      else Inr (PyInt major))"

text \<open>
  \<open>_check_version(binary, version, major, minor, patch, exact)\<close>. \<open>version_ok\<close> reads the
  parts at the indices 0, 1 and 2 only after the length test, so they exist. The
  failure message is the two adjacent f-strings of the source, joined as Python joins
  them, with \<open>{parts}\<close> rendered before \<open>{expected_version}\<close>.
\<close>

definition check_version ::
  "string \<Rightarrow> string \<Rightarrow> int \<Rightarrow> int \<Rightarrow> int \<Rightarrow> bool \<Rightarrow> exc + ProcessResponse" where
  "check_version binary version major minor patch exact =
     (let parts = py_split CHR ''.'' version in
      if length parts \<noteq> 3 then
        Inr \<lparr>output' = None,
             error = Some (binary @ '' incorrect version format or not found. Check that it is installed correctly''),
             status_code = 1\<rparr>
      else
        (case ints_of parts of
           Inl e \<Rightarrow> Inl e
         | Inr parts \<Rightarrow>
             if version_ok exact parts major minor patch then
               Inr \<lparr>output' = Some (binary @ '' version OK. Got '' @ version @ ''.''),
                    error = None, status_code = 0\<rparr>
             else
               bind_exc (expected_version major minor patch) (\<lambda>expected_version.
               bind_exc (str_int_list parts) (\<lambda>got.
               bind_exc (str_pyval expected_version) (\<lambda>expected.
                 Inr \<lparr>output' = None,
                      error = Some ((binary @ '' wrong version.'')
                                @ (''Got '' @ got @ '' expected '' @ expected)),
                      status_code = 1\<rparr>)))))"

section \<open>The checks of the tools\<close>

definition none_has_no_attribute :: "string \<Rightarrow> exc" where
  "none_has_no_attribute a =
     AttributeError ([CHR 0x27] @ ''NoneType'' @ [CHR 0x27] @ '' object has no attribute ''
                       @ [CHR 0x27] @ a @ [CHR 0x27])"

text \<open>\<open>result.output.strip()\<close>: an output that is \<open>None\<close> has no \<open>strip\<close>.\<close>

definition output_strip :: "ProcessResponse \<Rightarrow> exc + string" where
  "output_strip result =
     (case output' result of
        None \<Rightarrow> Inl (none_has_no_attribute ''strip'')
      | Some s \<Rightarrow> Inr (py_strip s))"

text \<open>The handler of the version checks: \<open>"<Tool> not found. Got {err}."\<close>.\<close>

definition not_found :: "string \<Rightarrow> exc \<Rightarrow> exc + ProcessResponse" where
  "not_found tool err =
     Inr \<lparr>output' = None,
          error = Some (tool @ '' not found. Got '' @ str_exc err @ ''.''),
          status_code = 1\<rparr>"

text \<open>
  \<open>run_cmd\<close> of \<open>helpers/process.py\<close> is a parameter of every check that calls it: from
  the argument vector to the response, or to the exception the call raises.
\<close>

type_synonym run_cmd = "string list \<Rightarrow> exc + ProcessResponse"

definition check_node_version :: "run_cmd \<Rightarrow> int \<Rightarrow> int \<Rightarrow> int \<Rightarrow> bool \<Rightarrow> exc + ProcessResponse" where
  "check_node_version run_cmd major minor patch exact =
     catch_exc
       (bind_exc (run_cmd [''node'', ''--version'']) (\<lambda>result.
        bind_exc (output_strip result) (\<lambda>text.
        bind_exc (version_from_string text) (\<lambda>version.
        check_version ''Node'' version major minor patch exact))))
       (not_found ''Node'')"

definition check_npm_version :: "run_cmd \<Rightarrow> int \<Rightarrow> int \<Rightarrow> int \<Rightarrow> bool \<Rightarrow> exc + ProcessResponse" where
  "check_npm_version run_cmd major minor patch exact =
     catch_exc
       (bind_exc (run_cmd [''npm'', ''--version'']) (\<lambda>result.
        bind_exc (output_strip result) (\<lambda>text.
        bind_exc (version_from_string text) (\<lambda>version.
        check_version ''NPM'' version major minor patch exact))))
       (not_found ''NPM'')"

text \<open>
  \<open>check_python_version\<close> formats \<open>sys.version_info\<close>, here the three integers
  \<open>vmajor\<close>, \<open>vminor\<close> and \<open>vmicro\<close>, with \<open>"{}.{}.{}".format\<close>, and calls no tool; it
  has no handler.
\<close>

definition check_python_version ::
  "int \<Rightarrow> int \<Rightarrow> int \<Rightarrow> int \<Rightarrow> int \<Rightarrow> int \<Rightarrow> bool \<Rightarrow> exc + ProcessResponse" where
  "check_python_version vmajor vminor vmicro major minor patch exact =
     bind_exc (format_3 vmajor vminor vmicro) (\<lambda>version.
       check_version ''Python'' version major minor patch exact)"

text \<open>
  \<open>check_docker_version\<close>: \<open>client_version\<close> stands for
  \<open>json.loads(text)["Client"]["Version"]\<close>, the string found or the exception that
  the parse, a subscript or the search in a value that is no string raises.
\<close>

definition check_docker_version ::
  "run_cmd \<Rightarrow> (string \<Rightarrow> exc + string) \<Rightarrow> int \<Rightarrow> int \<Rightarrow> int \<Rightarrow> bool \<Rightarrow> exc + ProcessResponse" where
  "check_docker_version run_cmd client_version major minor patch exact =
     catch_exc
       (bind_exc (run_cmd [''docker'', ''version'', ''--format'', ''json'']) (\<lambda>result.
        bind_exc (output_strip result) (\<lambda>text.
        bind_exc (client_version text) (\<lambda>client.
        bind_exc (version_from_string client) (\<lambda>version.
        check_version ''Docker'' version major minor patch exact)))))
       (not_found ''Docker'')"

text \<open>
  Modelled from the spec: \<open>DockerHelper\<close> of \<open>helpers/docker_helper.py\<close>, which is not
  among the sources; the spec has it supply the argument vector of the compose
  command. The check builds the helper before its \<open>try\<close> and reads the vector inside
  it, so the parameter \<open>helper\<close> is the helper built, or the exception of building it.
\<close>

record DockerHelper =
  docker_compose :: "exc + string list"

definition check_docker_compose_version ::
  "run_cmd \<Rightarrow> exc + DockerHelper \<Rightarrow> int \<Rightarrow> int \<Rightarrow> int \<Rightarrow> bool \<Rightarrow> exc + ProcessResponse" where
  "check_docker_compose_version run_cmd helper major minor patch exact =
     bind_exc helper (\<lambda>docker_helper.
       catch_exc
         (bind_exc (docker_compose docker_helper) (\<lambda>argv.
          bind_exc (run_cmd (argv @ [''version''])) (\<lambda>result.
          bind_exc (output_strip result) (\<lambda>text.
          bind_exc (version_from_string text) (\<lambda>version.
          check_version ''Docker Compose'' version major minor patch exact)))))
         (not_found ''Docker Compose''))"

definition check_imagemagick_version ::
  "run_cmd \<Rightarrow> int \<Rightarrow> int \<Rightarrow> int \<Rightarrow> bool \<Rightarrow> exc + ProcessResponse" where
  "check_imagemagick_version run_cmd major minor patch exact =
     catch_exc
       (bind_exc (run_cmd [''convert'', ''--version'']) (\<lambda>result.
        bind_exc (output_strip result) (\<lambda>text.
        bind_exc (version_from_string text) (\<lambda>version.
        check_version ''ImageMagick'' version major minor patch exact))))
       (not_found ''ImageMagick'')"

definition check_git_version :: "run_cmd \<Rightarrow> int \<Rightarrow> int \<Rightarrow> int \<Rightarrow> bool \<Rightarrow> exc + ProcessResponse" where
  "check_git_version run_cmd major minor patch exact =
     catch_exc
       (bind_exc (run_cmd [''git'', ''--version'']) (\<lambda>result.
        bind_exc (output_strip result) (\<lambda>text.
        bind_exc (version_from_string text) (\<lambda>version.
        check_version ''git'' version major minor patch exact))))
       (not_found ''git'')"

text \<open>
  \<open>check_pipenv_installed\<close>. Its handler renders \<open>result.error\<close>, not the exception:
  \<open>str_field\<close> is the f-string's rendering of the field, \<open>None\<close> as the word. When
  \<open>run_cmd\<close> itself raises, \<open>result\<close> was never assigned, and reading it in the handler
  raises \<open>UnboundLocalError\<close>, which leaves the function. \<open>parts[0]\<close> always exists
  (\<open>split\<close> gives at least one part); \<open>parts[1]\<close> raises \<open>IndexError\<close> when the output
  has no comma.
\<close>

definition str_field :: "string option \<Rightarrow> string" where
  "str_field f = (case f of None \<Rightarrow> ''None'' | Some s \<Rightarrow> s)"

definition check_pipenv_installed :: "run_cmd \<Rightarrow> exc + ProcessResponse" where
  "check_pipenv_installed run_cmd =
     (case run_cmd [''pipenv'', ''--version''] of
        Inl err \<Rightarrow> Inl (UnboundLocalError ''result'')
      | Inr result \<Rightarrow>
          catch_exc
            (bind_exc (output_strip result) (\<lambda>text.
               case py_split CHR '','' text of
                 [] \<Rightarrow> Inl (IndexError ''list index out of range'')
               | p0 # rest \<Rightarrow>
                   if p0 \<noteq> ''pipenv'' then
                     Inr \<lparr>output' = None,
                          error = Some (''Pipenv not found. Got '' @ p0 @ ''.''),
                          status_code = 1\<rparr>
                   else
                     (case rest of
                        [] \<Rightarrow> Inl (IndexError ''list index out of range'')
                      | p1 # _ \<Rightarrow>
                          bind_exc (version_from_string p1) (\<lambda>version.
                            Inr \<lparr>output' = Some (''Pipenv OK. Got version '' @ version @ ''.''),
                                 error = None, status_code = 0\<rparr>))))
            (\<lambda>_. Inr \<lparr>output' = None,
                       error = Some (''Pipenv not found. Got '' @ str_field (error result) @ ''.''),
                       status_code = 1\<rparr>))"

text \<open>Two stand-ins for \<open>run_cmd\<close>: every call returns \<open>r\<close>, or every call raises \<open>e\<close>.\<close>

definition run_cmd_returns :: "ProcessResponse \<Rightarrow> run_cmd" where
  "run_cmd_returns r argv = Inr r"

definition run_cmd_raises :: "exc \<Rightarrow> run_cmd" where
  "run_cmd_raises e argv = Inl e"

section \<open>The lists of steps\<close>

text \<open>
  Modelled from the spec: \<open>FunctionStep\<close> of \<open>commands/steps.py\<close>, which is not among
  the sources. The spec describes a step as a function, its arguments and a message;
  the record keeps what the constructor calls pass: the function by name, the
  \<open>args\<close> dictionary as the association list of its literal (\<open>None\<close> where the call
  passes none) and the message.
\<close>

datatype func =
    Check_python_version
  | Check_pipenv_installed
  | Check_docker_version
  | Check_docker_compose_version
  | Check_node_version
  | Check_npm_version
  | Check_imagemagick_version
  | Check_git_version
  | Update_instance_path
  | Symlink_project_file_or_folder
  | Update_statics_and_assets
  | Packages_func string

record FunctionStep =
  func :: func
  args :: "(string \<times> pyval) list option"
  message :: string

text \<open>
  \<open>check_dev\<close>: \<open>rdm_major\<close> is \<open>rdm_version()[0]\<close> of \<open>helpers/versions.py\<close>, a
  parameter.
\<close>

definition check_dev :: "int \<Rightarrow> FunctionStep list" where
  "check_dev rdm_major =
     (let (node_version, npm_version) =
            (if rdm_major \<ge> 12 then (18, 10)
             else if rdm_major \<ge> 11 then (16, 7)
             else (14, 6))
      in [\<lparr>func = Check_node_version,
            args = Some [(''major'', PyInt node_version)],
            message = ''Checking Node version...''\<rparr>,
          \<lparr>func = Check_npm_version,
            args = Some [(''major'', PyInt npm_version)],
            message = ''Checking NPM version...''\<rparr>,
          \<lparr>func = Check_imagemagick_version,
            args = Some [(''major'', PyInt 0), (''minor'', PyInt 0)],
            message = ''Checking ImageMagick version...''\<rparr>,
          \<lparr>func = Check_git_version,
            args = Some [(''major'', PyInt 0), (''minor'', PyInt 0)],
            message = ''Checking git version...''\<rparr>])"

definition check :: "int \<Rightarrow> bool \<Rightarrow> FunctionStep list" where
  "check rdm_major development =
     (let steps =
            [\<lparr>func = Check_python_version,
               args = Some [(''major'', PyInt 3), (''minor'', PyInt 9)],
               message = ''Checking Python version...''\<rparr>,
             \<lparr>func = Check_pipenv_installed,
               args = None,
               message = ''Checking Pipenv is installed...''\<rparr>,
             \<lparr>func = Check_docker_version,
               args = Some [(''major'', PyInt 0), (''minor'', PyInt 0)],
               message = ''Checking Docker version...''\<rparr>,
             \<lparr>func = Check_docker_compose_version,
               args = Some [(''major'', PyInt 1), (''minor'', PyInt 17)],
               message = ''Checking Docker Compose version...''\<rparr>]
      in if development then steps @ check_dev rdm_major else steps)"

text \<open>
  Modelled from the spec: \<open>PackagesCommands\<close> of \<open>commands/packages.py\<close>, which is not
  among the sources. \<open>install_py_dependencies\<close> reads three things of it: the
  response of \<open>is_locked()\<close> and the step lists of \<open>lock(pre, dev)\<close> and
  \<open>install_locked_dependencies(pre, dev)\<close>.
\<close>

record PackagesCommands =
  is_locked :: ProcessResponse
  lock :: "pyval \<Rightarrow> pyval \<Rightarrow> FunctionStep list"
  install_locked_dependencies :: "pyval \<Rightarrow> pyval \<Rightarrow> FunctionStep list"

definition install_py_dependencies ::
  "PackagesCommands \<Rightarrow> pyval \<Rightarrow> pyval \<Rightarrow> FunctionStep list" where
  "install_py_dependencies packages_commands pre dev =
     (let steps = [];
          steps = (if status_code (is_locked packages_commands) > 0
                   then steps @ lock packages_commands pre dev else steps);
          steps = steps @ install_locked_dependencies packages_commands pre dev
      in steps)"

definition symlink :: "FunctionStep list" where
  "symlink =
     (let steps = [];
          steps = steps @ [\<lparr>func = Update_instance_path, args = None,
                            message = ''Updating instance path...''\<rparr>];
          steps = steps @
            map (\<lambda>path. \<lparr>func = Symlink_project_file_or_folder,
                           args = Some [(''target'', PyStr path)],
                           message = ''Symlinking '' @ [CHR 0x27] @ path @ [CHR 0x27] @ ''...''\<rparr>)
                [''invenio.cfg'', ''templates'', ''app_data'']
      in steps)"

definition install_assets :: "pyval \<Rightarrow> FunctionStep list" where
  "install_assets debug =
     [\<lparr>func = Update_statics_and_assets,
       args = Some [(''force'', PyBool True), (''debug'', debug)],
       message = ''Updating statics and assets...''\<rparr>]"

definition install ::
  "PackagesCommands \<Rightarrow> pyval \<Rightarrow> pyval \<Rightarrow> pyval \<Rightarrow> pyval \<Rightarrow> FunctionStep list" where
  "install packages_commands pre dev debug flask_env =
     (let steps = install_py_dependencies packages_commands pre dev;
          steps = steps @ symlink;
          steps = steps @ install_assets flask_env
      in steps)"

section \<open>Decimal numerals are read back\<close>

text \<open>
  \<open>int\<close> reads the \<open>str\<close> of a natural number back, what \<open>int\<close> reads is short
  enough for \<open>str\<close> to print, and a version formatted from three natural numbers
  splits into its three parts: every triple of non-negative integers of at most 4300
  digits each is the reading of some version string.
\<close>
lemma is_digit_char_of: "(d::nat) < 10 \<Longrightarrow> is_digit (char_of (48 + d))"
  by (simp add: is_digit_def)

lemma digit_val_char_of: "(d::nat) < 10 \<Longrightarrow> digit_val (char_of (48 + d)) = int d"
  by (simp add: digit_val_def)

lemma str_nat_digits: "c \<in> set (str_nat n) \<Longrightarrow> is_digit c"
proof (induction n rule: str_nat.induct)
  case (1 n)
  then show ?case
    by (subst (asm) (2) str_nat.simps) (auto simp: is_digit_char_of split: if_splits)
qed

lemma str_nat_nonempty: "str_nat n \<noteq> []"
  by (subst str_nat.simps) simp

lemma digit_not_int_space: "is_digit c \<Longrightarrow> \<not> int_space c"
  by (auto simp: is_digit_def int_space_def Let_def)

lemma digit_not_special:
  "is_digit c \<Longrightarrow> c \<noteq> CHR ''_'' \<and> c \<noteq> CHR ''-'' \<and> c \<noteq> CHR ''+'' \<and> c \<noteq> CHR ''.''"
  by (auto simp: is_digit_def)

lemma digits_ok_digits: "s \<noteq> [] \<Longrightarrow> \<forall>c \<in> set s. is_digit c \<Longrightarrow> digits_ok s"
  by (induction s rule: digits_ok.induct) (auto simp: digit_not_special)

lemma digits_val_snoc:
  "c \<noteq> CHR ''_'' \<Longrightarrow> digits_val (s @ [c]) = digits_val s * 10 + digit_val c"
  by (simp add: digits_val_def)

lemma digits_val_single: "c \<noteq> CHR ''_'' \<Longrightarrow> digits_val [c] = digit_val c"
  by (simp add: digits_val_def)

lemma digits_val_str_nat: "digits_val (str_nat n) = int n"
proof (induction n rule: str_nat.induct)
  case (1 n)
  have nd: "char_of (48 + k mod 10) \<noteq> CHR ''_''" for k :: nat
    using digit_not_special [OF is_digit_char_of [of "k mod 10"]] by simp
  show ?case
  proof (cases "n < 10")
    case True
    then have "str_nat n = [char_of (48 + n)]" by (subst str_nat.simps) simp
    moreover have "char_of (48 + n) \<noteq> CHR ''_''" using nd [of n] True by simp
    ultimately show ?thesis using True by (simp add: digits_val_single digit_val_char_of)
  next
    case False
    then have "str_nat n = str_nat (n div 10) @ [char_of (48 + n mod 10)]"
      by (subst str_nat.simps) simp
    then have "digits_val (str_nat n) =
        digits_val (str_nat (n div 10)) * 10 + digit_val (char_of (48 + n mod 10))"
      by (simp add: digits_val_snoc [OF nd])
    also have "\<dots> = int (n div 10) * 10 + int (n mod 10)"
      using 1 False by (simp add: digit_val_char_of)
    also have "\<dots> = int n" by (simp add: zdiv_int zmod_int)
    finally show ?thesis .
  qed
qed

lemma takeWhile_all: "\<forall>c \<in> set s. P c \<Longrightarrow> takeWhile P s = s"
  by (induction s) auto

lemma dropWhile_all: "\<forall>c \<in> set s. P c \<Longrightarrow> dropWhile P s = []"
  by (induction s) auto

lemma filter_all: "\<forall>c \<in> set s. P c \<Longrightarrow> filter P s = s"
  by (induction s) auto

text \<open>A numeral of at most 4300 digits is read back.\<close>

lemma py_int_str_nat:
  assumes "length (str_nat n) \<le> int_max_str_digits"
  shows "py_int (str_nat n) = Inr (int n)"
proof -
  have d: "\<forall>c \<in> set (str_nat n). is_digit c" by (simp add: str_nat_digits)
  then have r: "\<forall>c \<in> set (str_nat n). in_run c" by (simp add: in_run_def)
  obtain c r where cr: "str_nat n = c # r"
    using str_nat_nonempty [of n] by (cases "str_nat n") auto
  have dc: "is_digit c" using d cr by simp
  then have c: "c \<noteq> CHR ''-''" "c \<noteq> CHR ''+''" "\<not> int_space c"
    using digit_not_special digit_not_int_space by auto
  have t: "dropWhile int_space (str_nat n) = str_nat n" using cr c by simp
  have run: "takeWhile in_run (str_nat n) = str_nat n" using r by (rule takeWhile_all)
  have rest: "dropWhile in_run (str_nat n) = []" using r by (rule dropWhile_all)
  have f: "filter is_digit (str_nat n) = str_nat n" using d by (rule filter_all)
  have ok: "digits_ok (str_nat n)"
    using digits_ok_digits [OF str_nat_nonempty, of n] d by simp
  have body: "(case str_nat n of [] \<Rightarrow> [] | c # r \<Rightarrow> if c = CHR ''-'' \<or> c = CHR ''+'' then r else str_nat n)
      = str_nat n" using cr c by simp
  have neg: "(case str_nat n of [] \<Rightarrow> False | c # x \<Rightarrow> c = CHR ''-'') = False"
    using cr c by simp
  show ?thesis
    unfolding py_int_def Let_def t body neg run rest f
    using ok assms by (simp add: digits_val_str_nat)
qed
lemma digits_ok_in_run: "digits_ok s \<Longrightarrow> \<forall>c \<in> set s. in_run c"
  by (induction s rule: digits_ok.induct) (auto simp: in_run_def split: if_splits)

lemma digits_ok_first: "digits_ok s \<Longrightarrow> filter is_digit s \<noteq> []"
  by (induction s rule: digits_ok.induct) auto

lemma filter_run: "\<forall>c \<in> set s. in_run c \<Longrightarrow> filter (\<lambda>c. c \<noteq> CHR ''_'') s = filter is_digit s"
  by (induction s) (auto simp: in_run_def digit_not_special)

lemma digit_val_range: "is_digit c \<Longrightarrow> 0 \<le> digit_val c \<and> digit_val c \<le> 9"
  by (auto simp: is_digit_def digit_val_def)

lemma foldl_digits_bound:
  "\<forall>c \<in> set ds. is_digit c \<Longrightarrow> 0 \<le> a \<Longrightarrow>
   0 \<le> foldl (\<lambda>acc c. acc * 10 + digit_val c) a ds \<and>
   foldl (\<lambda>acc c. acc * 10 + digit_val c) a ds < (a + 1) * 10 ^ length ds"
proof (induction ds arbitrary: a)
  case Nil
  then show ?case by simp
next
  case (Cons d ds)
  have r: "0 \<le> digit_val d" "digit_val d \<le> 9" using Cons.prems digit_val_range by auto
  then have a': "0 \<le> a * 10 + digit_val d" using Cons.prems by simp
  have "foldl (\<lambda>acc c. acc * 10 + digit_val c) (a * 10 + digit_val d) ds
      < (a * 10 + digit_val d + 1) * 10 ^ length ds"
    using Cons.IH [OF _ a'] Cons.prems by simp
  also have "\<dots> \<le> ((a + 1) * 10) * 10 ^ length ds"
    using r by (intro mult_right_mono) auto
  also have "\<dots> = (a + 1) * 10 ^ length (d # ds)" by simp
  finally have "foldl (\<lambda>acc c. acc * 10 + digit_val c) (a * 10 + digit_val d) ds
      < (a + 1) * 10 ^ length (d # ds)" .
  moreover have "0 \<le> foldl (\<lambda>acc c. acc * 10 + digit_val c) (a * 10 + digit_val d) ds"
    using Cons.IH [OF _ a'] Cons.prems by simp
  ultimately show ?case by simp
qed

lemma digits_val_bound:
  assumes "digits_ok run"
  shows "0 \<le> digits_val run \<and> digits_val run < 10 ^ length (filter is_digit run)"
proof -
  have "filter (\<lambda>c. c \<noteq> CHR ''_'') run = filter is_digit run"
    using digits_ok_in_run [OF assms] by (rule filter_run)
  then show ?thesis
    using foldl_digits_bound [of "filter is_digit run" 0] by (simp add: digits_val_def)
qed

lemma length_str_nat: "m < 10 ^ k \<Longrightarrow> 0 < k \<Longrightarrow> length (str_nat m) \<le> k"
proof (induction m arbitrary: k rule: str_nat.induct)
  case (1 n)
  show ?case
  proof (cases "n < 10")
    case True
    then have "str_nat n = [char_of (48 + n)]" by (subst str_nat.simps) simp
    then show ?thesis using "1.prems" by simp
  next
    case False
    then have s: "str_nat n = str_nat (n div 10) @ [char_of (48 + n mod 10)]"
      by (subst str_nat.simps) simp
    obtain j where k: "k = Suc j" using "1.prems" by (cases k) auto
    have "j \<noteq> 0" using False "1.prems" k by (cases j) auto
    moreover have "n div 10 < 10 ^ j" using "1.prems" k by (simp add: less_mult_imp_div_less)
    ultimately have "length (str_nat (n div 10)) \<le> j" using "1.IH" [OF False] by simp
    then show ?thesis using s k by simp
  qed
qed

text \<open>What \<open>int\<close> reads has at most 4300 digits, so \<open>str\<close> renders it.\<close>

lemma py_int_fits:
  assumes "py_int p = Inr n"
  shows "fits_str_digits n"
proof -
  define t where "t = dropWhile int_space p"
  define body where "body = (case t of [] \<Rightarrow> [] | c # r \<Rightarrow> if c = CHR ''-'' \<or> c = CHR ''+'' then r else t)"
  define run where "run = takeWhile in_run body"
  have ok: "digits_ok run" and cap: "length (filter is_digit run) \<le> int_max_str_digits"
    and n: "\<bar>n\<bar> = \<bar>digits_val run\<bar>"
    using assms unfolding py_int_def Let_def t_def body_def run_def
    by (auto split: if_splits)
  have b: "0 \<le> digits_val run" "digits_val run < 10 ^ length (filter is_digit run)"
    using digits_val_bound [OF ok] by auto
  then have "nat \<bar>n\<bar> < 10 ^ length (filter is_digit run)"
    using n by (simp add: nat_less_iff)
  moreover have "0 < length (filter is_digit run)" using digits_ok_first [OF ok] by simp
  ultimately have "length (str_nat (nat \<bar>n\<bar>)) \<le> length (filter is_digit run)"
    by (rule length_str_nat)
  then show ?thesis using cap by (simp add: fits_str_digits_def)
qed

lemma ints_of_length: "ints_of ps = Inr ns \<Longrightarrow> length ns = length ps"
  by (induction ps arbitrary: ns) (auto split: sum.splits)

lemma ints_of_fits: "ints_of ps = Inr ns \<Longrightarrow> \<forall>n \<in> set ns. fits_str_digits n"
  by (induction ps arbitrary: ns) (auto split: sum.splits dest: py_int_fits)

lemma strs_of_fits: "\<forall>n \<in> set ns. fits_str_digits n \<Longrightarrow> strs_of ns = Inr (map dec_int ns)"
  by (induction ns) (auto simp: bind_exc_def str_int_def)

lemma str_int_list_parsed:
  "ints_of ps = Inr ns \<Longrightarrow> str_int_list ns = Inr (''['' @ join_comma (map dec_int ns) @ '']'')"
  using strs_of_fits [OF ints_of_fits] by (simp add: str_int_list_def bind_exc_def)

lemma py_split_no_sep: "sep \<notin> set p \<Longrightarrow> py_split sep p = [p]"
  by (induction p) auto

lemma py_split_append: "sep \<notin> set p \<Longrightarrow> py_split sep (p @ sep # rest) = p # py_split sep rest"
  by (induction p) auto

lemma str_nat_no_dot: "CHR ''.'' \<notin> set (str_nat n)"
  using str_nat_digits digit_not_special by blast

lemma fits_str_digits_nat: "fits_str_digits (int n) \<longleftrightarrow> length (str_nat n) \<le> int_max_str_digits"
  by (simp add: fits_str_digits_def)

text \<open>
  Every triple of natural numbers of at most 4300 digits each is the reading of the
  version string formatted from it.
\<close>

lemma ints_of_format_3:
  assumes "fits_str_digits (int x)" "fits_str_digits (int y)" "fits_str_digits (int z)"
  shows "\<exists>version. format_3 (int x) (int y) (int z) = Inr version \<and>
           ints_of (py_split CHR ''.'' version) = Inr [int x, int y, int z]"
  using assms
  by (simp add: format_3_def bind_exc_def str_int_def dec_int_def py_split_append py_split_no_sep
      str_nat_no_dot py_int_str_nat fits_str_digits_nat)

section \<open>The comparison of \<open>_check_version\<close>\<close>
text \<open>What \<open>_check_version\<close> does with a version that reads as three integers.\<close>

lemma check_version_parsed:
  assumes "ints_of (py_split CHR ''.'' version) = Inr [a, b, c]"
  shows "check_version binary version major minor patch exact =
     (if version_ok exact [a, b, c] major minor patch then
        Inr \<lparr>output' = Some (binary @ '' version OK. Got '' @ version @ ''.''),
             error = None, status_code = 0\<rparr>
      else
        bind_exc (expected_version major minor patch) (\<lambda>expected_version.
        bind_exc (str_pyval expected_version) (\<lambda>expected.
          Inr \<lparr>output' = None,
               error = Some (binary @ '' wrong version.Got ''
                         @ ''['' @ dec_int a @ '', '' @ dec_int b @ '', '' @ dec_int c @ '']''
                         @ '' expected '' @ expected),
               status_code = 1\<rparr>)))"
proof -
  have "length (py_split CHR ''.'' version) = 3"
    using ints_of_length [OF assms] by simp
  then show ?thesis
    using assms str_int_list_parsed [OF assms]
    by (simp add: check_version_def bind_exc_def split: sum.splits)
qed

text \<open>The fields of the spec that the failure message shows, when they can be printed.\<close>

lemma expected_version_rendered:
  assumes "fits_str_digits major" "fits_str_digits minor" "fits_str_digits patch"
  shows "bind_exc (expected_version major minor patch) str_pyval =
     Inr (if minor > - 1 then
            (if patch > - 1 then dec_int major @ ''.'' @ dec_int minor @ ''.'' @ dec_int patch
             else dec_int major @ ''.'' @ dec_int minor)
          else dec_int major)"
  using assms
  by (simp add: expected_version_def format_2_def format_3_def str_pyval_def str_int_def
      bind_exc_def)

lemma check_version_parsed_fits:
  assumes "ints_of (py_split CHR ''.'' version) = Inr [a, b, c]"
    and "fits_str_digits major" "fits_str_digits minor" "fits_str_digits patch"
  shows "check_version binary version major minor patch exact =
     (if version_ok exact [a, b, c] major minor patch then
        Inr \<lparr>output' = Some (binary @ '' version OK. Got '' @ version @ ''.''),
             error = None, status_code = 0\<rparr>
      else
        Inr \<lparr>output' = None,
             error = Some (binary @ '' wrong version.Got ''
                       @ ''['' @ dec_int a @ '', '' @ dec_int b @ '', '' @ dec_int c @ '']''
                       @ '' expected ''
                       @ (if minor > - 1 then
                            (if patch > - 1
                             then dec_int major @ ''.'' @ dec_int minor @ ''.'' @ dec_int patch
                             else dec_int major @ ''.'' @ dec_int minor)
                          else dec_int major)),
             status_code = 1\<rparr>)"
  using expected_version_rendered [OF assms(2-4)]
  unfolding check_version_parsed [OF assms(1)]
  by (auto simp: bind_exc_def split: sum.splits)

lemma check_version_parsed_status:
  assumes "ints_of (py_split CHR ''.'' version) = Inr [a, b, c]"
  shows "(\<exists>r. check_version binary version major minor patch exact = Inr r \<and> status_code r = 0)
           \<longleftrightarrow> version_ok exact [a, b, c] major minor patch"
  unfolding check_version_parsed [OF assms]
  by (auto simp: bind_exc_def split: sum.splits)

text \<open>
  C1. In minimum-version mode (\<open>exact\<close> false), a version that reads as the integers
  \<open>(a, b, c)\<close> passes the check against \<open>(major, minor, patch)\<close>, unset fields being
  \<open>-1\<close>, if and only if \<open>a > major\<close>, or \<open>a = major\<close> and \<open>b > minor\<close>, or \<open>a = major\<close>,
  \<open>b = minor\<close> and \<open>c \<ge> patch\<close>: the lexicographic order of triples. To pass is to
  return a result with \<open>status_code\<close> 0. When the three integers of the spec have at
  most 4300 digits each, the check also returns a result in the other case, and its
  status is not 0; with a longer one, printing the expected version raises there.
\<close>
theorem check_version_minimum_mode:
  assumes "ints_of (py_split CHR ''.'' version) = Inr [a, b, c]"
  shows "((\<exists>r. check_version binary version major minor patch False = Inr r \<and> status_code r = 0)
            \<longleftrightarrow> (a > major \<or> (a = major \<and> b > minor)
                   \<or> (a = major \<and> b = minor \<and> c \<ge> patch))) \<and>
         (fits_str_digits major \<and> fits_str_digits minor \<and> fits_str_digits patch \<longrightarrow>
            (\<exists>r. check_version binary version major minor patch False = Inr r \<and>
               (status_code r = 0 \<longleftrightarrow>
                  (a > major \<or> (a = major \<and> b > minor)
                     \<or> (a = major \<and> b = minor \<and> c \<ge> patch)))))"
proof -
  have v: "version_ok False [a, b, c] major minor patch \<longleftrightarrow>
      (a > major \<or> (a = major \<and> b > minor) \<or> (a = major \<and> b = minor \<and> c \<ge> patch))"
    by (auto simp: version_ok_def)
  show ?thesis
    using check_version_parsed_status [OF assms, of binary major minor patch False]
      check_version_parsed_fits [OF assms, of major minor patch binary False]
    unfolding v by auto
qed

theorem check_version_minimum_mode_witness:
  "ints_of (py_split CHR ''.'' ''14.19.0'') = Inr [14, 19, 0] \<and>
   fits_str_digits 14 \<and> fits_str_digits 18 \<and> fits_str_digits 5 \<and>
   (\<exists>r. check_version ''Node'' ''14.19.0'' 14 18 5 False = Inr r \<and> status_code r = 0)"
proof -
  have h: "ints_of (py_split CHR ''.'' ''14.19.0'') = Inr [14, 19, 0]"
    by code_simp
  have f: "fits_str_digits 14" "fits_str_digits 18" "fits_str_digits 5"
    by code_simp+
  show ?thesis
    using h f check_version_minimum_mode [OF h, of "''Node''" 14 18 5] by auto
qed

text \<open>
  C4. In exact mode, a version that reads as \<open>(a, b, c)\<close> passes if and only if
  \<open>a = major\<close>, and \<open>minor\<close> is unset (\<open>-1\<close>) or \<open>b = minor\<close>, and \<open>patch\<close> is unset or
  \<open>c = patch\<close>; an unset field matches anything. To pass is to return a result with
  \<open>status_code\<close> 0; when the integers of the spec have at most 4300 digits each, the
  check returns a result in the other case too, with another status.
\<close>
theorem check_version_exact_mode:
  assumes "ints_of (py_split CHR ''.'' version) = Inr [a, b, c]"
  shows "((\<exists>r. check_version binary version major minor patch True = Inr r \<and> status_code r = 0)
            \<longleftrightarrow> (a = major \<and> (minor = - 1 \<or> b = minor) \<and> (patch = - 1 \<or> c = patch))) \<and>
         (fits_str_digits major \<and> fits_str_digits minor \<and> fits_str_digits patch \<longrightarrow>
            (\<exists>r. check_version binary version major minor patch True = Inr r \<and>
               (status_code r = 0 \<longleftrightarrow>
                  (a = major \<and> (minor = - 1 \<or> b = minor) \<and> (patch = - 1 \<or> c = patch)))))"
proof -
  have v: "version_ok True [a, b, c] major minor patch \<longleftrightarrow>
      (a = major \<and> (minor = - 1 \<or> b = minor) \<and> (patch = - 1 \<or> c = patch))"
    by (auto simp: version_ok_def)
  show ?thesis
    using check_version_parsed_status [OF assms, of binary major minor patch True]
      check_version_parsed_fits [OF assms, of major minor patch binary True]
    unfolding v by auto
qed

theorem check_version_exact_mode_witness:
  "ints_of (py_split CHR ''.'' ''3.9.5'') = Inr [3, 9, 5] \<and>
   fits_str_digits 3 \<and> fits_str_digits 9 \<and> fits_str_digits (- 1) \<and>
   (\<exists>r. check_version ''Python'' ''3.9.5'' 3 9 (- 1) True = Inr r \<and> status_code r = 0)"
proof -
  have h: "ints_of (py_split CHR ''.'' ''3.9.5'') = Inr [3, 9, 5]"
    by code_simp
  have f: "fits_str_digits 3" "fits_str_digits 9" "fits_str_digits (- 1)"
    by code_simp+
  show ?thesis
    using h f check_version_exact_mode [OF h, of "''Python''" 3 9 "- 1"] by auto
qed

text \<open>The examples of the spec.\<close>
lemma check_version_minimum_examples:
  "check_version ''Node'' ''14.19.0'' 14 18 5 False =
     Inr \<lparr>output' = Some ''Node version OK. Got 14.19.0.'', error = None, status_code = 0\<rparr>"
  "check_version ''Node'' ''14.18.0'' 14 (- 1) (- 1) False =
     Inr \<lparr>output' = Some ''Node version OK. Got 14.18.0.'', error = None, status_code = 0\<rparr>"
  "check_version ''Node'' ''13.9.9'' 14 0 0 False =
     Inr \<lparr>output' = None, error = Some ''Node wrong version.Got [13, 9, 9] expected 14.0.0'',
          status_code = 1\<rparr>"
  by code_simp+

lemma check_version_exact_examples:
  "check_version ''Python'' ''3.9.5'' 3 9 (- 1) True =
     Inr \<lparr>output' = Some ''Python version OK. Got 3.9.5.'', error = None, status_code = 0\<rparr>"
  "check_version ''Python'' ''3.10.5'' 3 9 (- 1) True =
     Inr \<lparr>output' = None, error = Some ''Python wrong version.Got [3, 10, 5] expected 3.9'',
          status_code = 1\<rparr>"
  by code_simp+

text \<open>The same for every triple of natural numbers that \<open>format\<close> can print.\<close>

lemma check_python_version_minimum:
  assumes "fits_str_digits (int x)" "fits_str_digits (int y)" "fits_str_digits (int z)"
  shows "(\<exists>r. check_python_version (int x) (int y) (int z) major minor patch False = Inr r \<and>
              status_code r = 0)
           \<longleftrightarrow> (int x > major \<or> (int x = major \<and> int y > minor)
                  \<or> (int x = major \<and> int y = minor \<and> int z \<ge> patch))"
proof -
  obtain version where v: "format_3 (int x) (int y) (int z) = Inr version"
      "ints_of (py_split CHR ''.'' version) = Inr [int x, int y, int z]"
    using ints_of_format_3 [OF assms] by blast
  show ?thesis
    using check_version_parsed_status [OF v(2), of "''Python''" major minor patch False]
    by (auto simp: check_python_version_def v(1) bind_exc_def version_ok_def)
qed

section \<open>Malformed versions\<close>
lemma ints_of_Inl: "ints_of ps = Inl e \<Longrightarrow> \<exists>p \<in> set ps. py_int p = Inl e"
  by (induction ps) (auto split: sum.splits)

lemma py_int_Inl:
  "py_int p = Inl e \<Longrightarrow>
   e = invalid_literal p \<or> (\<exists>d > int_max_str_digits. e = int_exceeds_limit d)"
  by (auto simp: py_int_def Let_def split: if_splits)

lemma expected_version_Inl:
  "bind_exc (expected_version major minor patch) (\<lambda>ev. bind_exc (str_pyval ev) f) = Inl e \<Longrightarrow>
   (\<forall>x. f x \<noteq> Inl e) \<Longrightarrow>
   e = str_exceeds_limit \<and>
   \<not> (fits_str_digits major \<and> fits_str_digits minor \<and> fits_str_digits patch)"
  by (auto simp: expected_version_def format_2_def format_3_def str_pyval_def str_int_def
      bind_exc_def split: if_splits sum.splits)

text \<open>
  C3, as the spec states it, fails: the version \<open>a.b.c\<close> splits into three parts, passes
  the length test, and \<open>int('a')\<close> raises \<open>ValueError\<close> out of \<open>_check_version\<close>.
\<close>
theorem check_version_three_parts_raise:
  "check_version ''Node'' ''a.b.c'' 14 (- 1) (- 1) False =
     Inl (ValueError
       (''invalid literal for int() with base 10: '' @ [CHR 0x27] @ ''a'' @ [CHR 0x27]))"
  by code_simp

text \<open>
  C3, amended. A version whose split at the dots does not give exactly three parts
  gets the result with \<open>status_code\<close> 1 and the format message. \<open>_check_version\<close>
  raises only when the split gives exactly three parts, and then in one of two ways.
  Either \<open>int\<close> rejects one of the parts, and what is raised is the \<open>ValueError\<close> of
  that call: the invalid literal, with the \<open>repr\<close> of the part cut at 200 characters, or
  the digit limit for a part of more than 4300 digits. Or the three parts are integers
  that fail the comparison and an integer of the spec has more than 4300 digits, and
  the \<open>ValueError\<close> is that of printing the expected version.
\<close>
theorem check_version_malformed:
  "(length (py_split CHR ''.'' version) \<noteq> 3 \<longrightarrow>
      check_version binary version major minor patch exact =
        Inr \<lparr>output' = None,
             error = Some (binary @ '' incorrect version format or not found. Check that it is installed correctly''),
             status_code = 1\<rparr>) \<and>
   (\<forall>e. check_version binary version major minor patch exact = Inl e \<longrightarrow>
      length (py_split CHR ''.'' version) = 3 \<and>
      ((\<exists>p \<in> set (py_split CHR ''.'' version).
          py_int p = Inl e \<and>
          (e = invalid_literal p \<or> (\<exists>d > int_max_str_digits. e = int_exceeds_limit d))) \<or>
       ((\<exists>ns. ints_of (py_split CHR ''.'' version) = Inr ns \<and>
              \<not> version_ok exact ns major minor patch) \<and>
        e = str_exceeds_limit \<and>
        \<not> (fits_str_digits major \<and> fits_str_digits minor \<and> fits_str_digits patch))))"
proof (intro conjI allI impI)
  assume "length (py_split CHR ''.'' version) \<noteq> 3"
  then show "check_version binary version major minor patch exact =
        Inr \<lparr>output' = None,
             error = Some (binary @ '' incorrect version format or not found. Check that it is installed correctly''),
             status_code = 1\<rparr>"
    by (simp add: check_version_def)
next
  fix e
  assume a: "check_version binary version major minor patch exact = Inl e"
  then show l: "length (py_split CHR ''.'' version) = 3"
    by (auto simp: check_version_def Let_def split: if_splits)
  show "(\<exists>p \<in> set (py_split CHR ''.'' version).
          py_int p = Inl e \<and>
          (e = invalid_literal p \<or> (\<exists>d > int_max_str_digits. e = int_exceeds_limit d))) \<or>
       ((\<exists>ns. ints_of (py_split CHR ''.'' version) = Inr ns \<and>
              \<not> version_ok exact ns major minor patch) \<and>
        e = str_exceeds_limit \<and>
        \<not> (fits_str_digits major \<and> fits_str_digits minor \<and> fits_str_digits patch))"
  proof (cases "ints_of (py_split CHR ''.'' version)")
    case (Inl e')
    then have "e' = e" using a l by (simp add: check_version_def)
    then obtain p where "p \<in> set (py_split CHR ''.'' version)" "py_int p = Inl e"
      using ints_of_Inl Inl by blast
    then show ?thesis using py_int_Inl by blast
  next
    case (Inr ns)
    then obtain x y z where ns: "ns = [x, y, z]"
      using ints_of_length [OF Inr] l
      by (metis (no_types, opaque_lifting) length_0_conv length_Suc_conv numeral_3_eq_3)
    have nok: "\<not> version_ok exact ns major minor patch"
      using a check_version_parsed [OF Inr [unfolded ns], of binary major minor patch exact] ns
      by (auto split: if_splits)
    then have "bind_exc (expected_version major minor patch) (\<lambda>ev.
        bind_exc (str_pyval ev) (\<lambda>expected.
          Inr \<lparr>output' = None,
               error = Some (binary @ '' wrong version.Got ''
                         @ ''['' @ dec_int x @ '', '' @ dec_int y @ '', '' @ dec_int z @ '']''
                         @ '' expected '' @ expected),
               status_code = 1\<rparr>)) = Inl e"
      using a check_version_parsed [OF Inr [unfolded ns], of binary major minor patch exact] ns
      by simp
    then have "e = str_exceeds_limit \<and>
        \<not> (fits_str_digits major \<and> fits_str_digits minor \<and> fits_str_digits patch)"
      by (rule expected_version_Inl) simp
    then show ?thesis using Inr nok by blast
  qed
qed

theorem check_version_malformed_witness:
  "length (py_split CHR ''.'' ''1.2'') \<noteq> 3 \<and>
   check_version ''Node'' ''1.2'' 14 (- 1) (- 1) False =
     Inr \<lparr>output' = None,
          error = Some ''Node incorrect version format or not found. Check that it is installed correctly'',
          status_code = 1\<rparr> \<and>
   check_version ''Node'' ''1.2.x'' 14 (- 1) (- 1) False =
     Inl (ValueError
       (''invalid literal for int() with base 10: '' @ [CHR 0x27] @ ''x'' @ [CHR 0x27])) \<and>
   length (py_split CHR ''.'' ''1.2.x'') = 3"
proof -
  have h: "length (py_split CHR ''.'' ''1.2'') \<noteq> 3" by simp
  have r: "check_version ''Node'' ''1.2.x'' 14 (- 1) (- 1) False =
     Inl (ValueError
       (''invalid literal for int() with base 10: '' @ [CHR 0x27] @ ''x'' @ [CHR 0x27]))"
    by code_simp
  show ?thesis
    using h r check_version_malformed [of "''1.2''" "''Node''" 14 "- 1" "- 1" False]
      check_version_malformed [of "''1.2.x''" "''Node''" 14 "- 1" "- 1" False]
    by auto
qed

text \<open>A part that \<open>int\<close> rejects, among three, does raise.\<close>

lemma check_version_rejected_part:
  "length (py_split CHR ''.'' version) = 3 \<Longrightarrow>
   ints_of (py_split CHR ''.'' version) = Inl e \<Longrightarrow>
   check_version binary version major minor patch exact = Inl e"
  by (simp add: check_version_def)

text \<open>The examples of the spec: \<open>abc\<close> has one part.\<close>
lemma check_version_abc:
  "check_version ''Node'' ''abc'' 14 (- 1) (- 1) False =
     Inr \<lparr>output' = None,
          error = Some ''Node incorrect version format or not found. Check that it is installed correctly'',
          status_code = 1\<rparr>"
  by (simp add: check_version_def)

text \<open>
  \<open>int\<close> strips less than \<open>str.strip\<close>: the file separator U+001C before the version
  stays in the first part, and \<open>int\<close> rejects it.
\<close>
lemma check_version_separators:
  "check_version ''Node'' ([CHR 0x1C] @ ''14.19.0'') 14 18 5 False =
     Inl (ValueError
       (''invalid literal for int() with base 10: '' @ [CHR 0x27, CHR 0x5C] @ ''x1c14''
          @ [CHR 0x27]))"
  by code_simp

section \<open>The messages of \<open>_check_version\<close>\<close>

text \<open>
  C6. The failure message at the input \<open>_check_version("Node", "14.4.0", 18)\<close>: the two
  adjacent f-strings join without a space, so the text reads \<open>wrong version.Got\<close>,
  where the claim (and the success message) have \<open>. Got\<close>.
\<close>
theorem check_version_wrong_version_message:
  "check_version ''Node'' ''14.4.0'' 18 (- 1) (- 1) False =
     Inr \<lparr>output' = None,
          error = Some ''Node wrong version.Got [14, 4, 0] expected 18'',
          status_code = 1\<rparr>"
  by code_simp

text \<open>The rest of the claim holds: which fields the expected version shows.\<close>

lemma expected_version_fields:
  "fits_str_digits major \<Longrightarrow> minor = - 1 \<Longrightarrow>
     bind_exc (expected_version major minor patch) str_pyval = Inr (dec_int major)"
  "fits_str_digits major \<Longrightarrow> fits_str_digits minor \<Longrightarrow> 0 \<le> minor \<Longrightarrow> patch = - 1 \<Longrightarrow>
     bind_exc (expected_version major minor patch) str_pyval
       = Inr (dec_int major @ ''.'' @ dec_int minor)"
  "fits_str_digits major \<Longrightarrow> fits_str_digits minor \<Longrightarrow> fits_str_digits patch \<Longrightarrow>
     0 \<le> minor \<Longrightarrow> 0 \<le> patch \<Longrightarrow>
     bind_exc (expected_version major minor patch) str_pyval
       = Inr (dec_int major @ ''.'' @ dec_int minor @ ''.'' @ dec_int patch)"
  by (simp_all add: expected_version_def format_2_def format_3_def str_pyval_def str_int_def
      bind_exc_def)

section \<open>Finding the version in the output of a tool\<close>

text \<open>
  C2. The pattern of \<open>_version_from_string\<close> has \<open>*\<close> where the claim has \<open>+\<close>, so two
  dots with nothing between them match. In \<open>Loading... v14.4.0\<close> the first match is
  in the ellipsis, and the function returns \<open>..\<close>, not \<open>14.4.0\<close>.
\<close>
theorem version_from_string_ellipsis:
  "version_from_string ''Loading... v14.4.0'' = Inr ''..''"
  by (simp add: version_from_string_def match_here_def is_digit_def)

lemma version_from_string_examples:
  "version_from_string ''v14.4.0'' = Inr ''14.4.0''"
  "version_from_string ''ImageMagick, version 7.0.11-13'' = Inr ''7.0.11''"
  "version_from_string ''Docker Compose version v2.17.3'' = Inr ''2.17.3''"
  by (simp_all add: version_from_string_def match_here_def is_digit_def)

text \<open>
  Where no dot stands before the version, the search does return it: with a text
  \<open>pre\<close> that has no dot and does not end in a digit, three runs of digits \<open>x\<close>, \<open>y\<close>,
  \<open>z\<close>, and a rest that does not go on with a digit, the result is \<open>x.y.z\<close>.
\<close>
lemma dot_not_digit: "\<not> is_digit CHR ''.''"
  by (simp add: is_digit_def)

lemma takeWhile_digits_stop:
  "\<forall>c \<in> set x. is_digit c \<Longrightarrow> \<not> is_digit d \<Longrightarrow> takeWhile is_digit (x @ d # r) = x"
  by (induction x) auto

lemma dropWhile_digits_stop:
  "\<forall>c \<in> set x. is_digit c \<Longrightarrow> \<not> is_digit d \<Longrightarrow> dropWhile is_digit (x @ d # r) = d # r"
  by (induction x) auto

lemma takeWhile_digits_end:
  assumes "\<forall>c \<in> set z. is_digit c" "post = [] \<or> \<not> is_digit (hd post)"
  shows "takeWhile is_digit (z @ post) = z"
proof -
  have "takeWhile is_digit post = []" using assms(2) by (cases post) auto
  then show ?thesis using assms(1) by (induction z) auto
qed

lemma match_here_version:
  assumes "\<forall>c \<in> set x. is_digit c" "\<forall>c \<in> set y. is_digit c" "\<forall>c \<in> set z. is_digit c"
    and "post = [] \<or> \<not> is_digit (hd post)"
  shows "match_here (x @ ''.'' @ y @ ''.'' @ z @ post) = Some (x @ ''.'' @ y @ ''.'' @ z)"
proof -
  let ?r2 = "z @ post"
  let ?r1 = "y @ CHR ''.'' # ?r2"
  have t1: "takeWhile is_digit (x @ CHR ''.'' # ?r1) = x"
    by (rule takeWhile_digits_stop [OF assms(1) dot_not_digit])
  have d1: "dropWhile is_digit (x @ CHR ''.'' # ?r1) = CHR ''.'' # ?r1"
    by (rule dropWhile_digits_stop [OF assms(1) dot_not_digit])
  have t2: "takeWhile is_digit ?r1 = y"
    by (rule takeWhile_digits_stop [OF assms(2) dot_not_digit])
  have d2: "dropWhile is_digit ?r1 = CHR ''.'' # ?r2"
    by (rule dropWhile_digits_stop [OF assms(2) dot_not_digit])
  have t3: "takeWhile is_digit ?r2 = z"
    using assms(3,4) by (rule takeWhile_digits_end)
  have "match_here (x @ CHR ''.'' # ?r1) = Some (x @ ''.'' @ y @ ''.'' @ z)"
    unfolding match_here_def Let_def t1 d1 by (simp only: list.case if_False simp_thms t2 d2 t3)
  then show ?thesis by simp
qed

lemma match_here_no_dot:
  assumes "CHR ''.'' \<notin> set s" "s \<noteq> []" "\<not> is_digit (last s)"
  shows "match_here (s @ r) = None"
proof -
  have "\<exists>c \<in> set s. \<not> is_digit c" using assms(2,3) last_in_set by blast
  then obtain d c s' where s: "s = d @ c # s'" "\<forall>a \<in> set d. is_digit a" "\<not> is_digit c"
    using split_list_first_prop [of s "\<lambda>c. \<not> is_digit c"] by auto
  then have "c \<noteq> CHR ''.''" using assms(1) by auto
  moreover have "dropWhile is_digit (s @ r) = c # s' @ r"
    using s dropWhile_digits_stop [of d c "s' @ r"] by simp
  ultimately show ?thesis by (simp add: match_here_def)
qed

lemma re_search_skips:
  assumes "CHR ''.'' \<notin> set pre" "pre = [] \<or> \<not> is_digit (last pre)"
  shows "re_search (pre @ r) = re_search r"
  using assms
proof (induction pre)
  case Nil
  then show ?case by simp
next
  case (Cons c pre)
  have "match_here ((c # pre) @ r) = None"
    using Cons.prems by (intro match_here_no_dot) auto
  moreover have "re_search (pre @ r) = re_search r"
    using Cons by (cases pre) auto
  ultimately show ?case by simp
qed

lemma re_search_at_match: "match_here s = Some m \<Longrightarrow> re_search s = Some m"
  by (cases s) auto

lemma version_from_string_finds:
  assumes "CHR ''.'' \<notin> set pre" "pre = [] \<or> \<not> is_digit (last pre)"
    and "\<forall>c \<in> set x. is_digit c" "\<forall>c \<in> set y. is_digit c" "\<forall>c \<in> set z. is_digit c"
    and "post = [] \<or> \<not> is_digit (hd post)"
  shows "version_from_string (pre @ x @ ''.'' @ y @ ''.'' @ z @ post)
           = Inr (x @ ''.'' @ y @ ''.'' @ z)"
  using re_search_skips [OF assms(1,2)] re_search_at_match [OF match_here_version [OF assms(3-6)]]
  by (simp add: version_from_string_def)

text \<open>
  What the caller makes of the ellipsis: \<open>int('')\<close> raises in \<open>_check_version\<close>, and
  the handler of \<open>check_node_version\<close> reports Node as not found.
\<close>
lemma check_node_version_ellipsis:
  "check_node_version
       (run_cmd_returns \<lparr>output' = Some ''Loading... v14.4.0'', error = None, status_code = 0\<rparr>)
       14 (- 1) (- 1) False =
     Inr \<lparr>output' = None,
          error = Some (''Node not found. Got invalid literal for int() with base 10: ''
                          @ [CHR 0x27, CHR 0x27] @ ''.''),
          status_code = 1\<rparr>"
  by code_simp

section \<open>A tool that cannot be run\<close>

text \<open>
  C5. \<open>check_pipenv_installed\<close> when \<open>run_cmd\<close> raises (here the \<open>FileNotFoundError\<close> of
  a missing binary): the handler reads \<open>result.error\<close>, \<open>result\<close> was never assigned,
  and \<open>UnboundLocalError\<close> leaves the function instead of a result with
  \<open>status_code\<close> 1.
\<close>
theorem check_pipenv_installed_run_cmd_raises:
  "check_pipenv_installed (run_cmd_raises (Raised ''[Errno 2] No such file or directory''))
     = Inl (UnboundLocalError ''result'')"
  by (simp add: check_pipenv_installed_def run_cmd_raises_def)

text \<open>The other checks that call a tool do what the claim says.\<close>
lemma checks_run_cmd_raises:
  "check_node_version (run_cmd_raises e) major minor patch exact = not_found ''Node'' e"
  "check_npm_version (run_cmd_raises e) major minor patch exact = not_found ''NPM'' e"
  "check_docker_version (run_cmd_raises e) client_version major minor patch exact
     = not_found ''Docker'' e"
  "check_docker_compose_version (run_cmd_raises e) (Inr \<lparr>docker_compose = Inr argv\<rparr>)
       major minor patch exact
     = not_found ''Docker Compose'' e"
  "check_imagemagick_version (run_cmd_raises e) major minor patch exact
     = not_found ''ImageMagick'' e"
  "check_git_version (run_cmd_raises e) major minor patch exact = not_found ''git'' e"
  by (simp_all add: check_node_version_def check_npm_version_def check_docker_version_def
      check_docker_compose_version_def check_imagemagick_version_def check_git_version_def
      run_cmd_raises_def bind_exc_def catch_exc_def)

section \<open>The builders of step lists\<close>

text \<open>
  C7, as the spec states it, fails: \<open>check_dev\<close> has a branch of its own, the tier of
  \<open>rdm_version()[0]\<close>, and its output depends on it.
\<close>
theorem check_dev_depends_on_rdm_version: "check_dev 12 \<noteq> check_dev 11"
  by (simp add: check_dev_def)

text \<open>So has \<open>install_py_dependencies\<close>: the lock steps come first only when not locked.\<close>

lemma install_py_dependencies_depends_on_lock:
  "install_py_dependencies
     \<lparr>is_locked = \<lparr>output' = None, error = Some ''not locked'', status_code = 1\<rparr>,
      lock = (\<lambda>pre dev. [\<lparr>func = Packages_func ''lock'', args = None, message = ''Locking...''\<rparr>]),
      install_locked_dependencies = (\<lambda>pre dev. [])\<rparr> (PyBool False) (PyBool False)
   \<noteq> install_py_dependencies
     \<lparr>is_locked = \<lparr>output' = Some ''locked'', error = None, status_code = 0\<rparr>,
      lock = (\<lambda>pre dev. [\<lparr>func = Packages_func ''lock'', args = None, message = ''Locking...''\<rparr>]),
      install_locked_dependencies = (\<lambda>pre dev. [])\<rparr> (PyBool False) (PyBool False)"
  by (simp add: install_py_dependencies_def)

text \<open>
  C7, amended. Every builder concatenates its parts in a fixed order. \<open>check\<close> with
  \<open>development\<close> is the four base steps followed by \<open>check_dev\<close>, and the base steps
  alone without it; \<open>install\<close> is \<open>install_py_dependencies\<close>, then \<open>symlink\<close>, then
  \<open>install_assets\<close>; \<open>symlink\<close> and \<open>install_assets\<close> have no branch. Two more
  conditions choose content, never order: \<open>check_dev\<close> takes the Node and NPM minimum
  from the tier of the RDM version (at 12 and at 11), and \<open>install_py_dependencies\<close>
  puts the lock steps first exactly when \<open>is_locked()\<close> has a positive status.
\<close>

theorem step_builders_assembly:
  "check rdm_major True = check rdm_major False @ check_dev rdm_major \<and>
   check rdm_major False =
     [\<lparr>func = Check_python_version,
        args = Some [(''major'', PyInt 3), (''minor'', PyInt 9)],
        message = ''Checking Python version...''\<rparr>,
      \<lparr>func = Check_pipenv_installed, args = None,
        message = ''Checking Pipenv is installed...''\<rparr>,
      \<lparr>func = Check_docker_version,
        args = Some [(''major'', PyInt 0), (''minor'', PyInt 0)],
        message = ''Checking Docker version...''\<rparr>,
      \<lparr>func = Check_docker_compose_version,
        args = Some [(''major'', PyInt 1), (''minor'', PyInt 17)],
        message = ''Checking Docker Compose version...''\<rparr>] \<and>
   check_dev rdm_major =
     [\<lparr>func = Check_node_version,
        args = Some [(''major'',
          PyInt (if rdm_major \<ge> 12 then 18 else if rdm_major \<ge> 11 then 16 else 14))],
        message = ''Checking Node version...''\<rparr>,
      \<lparr>func = Check_npm_version,
        args = Some [(''major'',
          PyInt (if rdm_major \<ge> 12 then 10 else if rdm_major \<ge> 11 then 7 else 6))],
        message = ''Checking NPM version...''\<rparr>,
      \<lparr>func = Check_imagemagick_version,
        args = Some [(''major'', PyInt 0), (''minor'', PyInt 0)],
        message = ''Checking ImageMagick version...''\<rparr>,
      \<lparr>func = Check_git_version,
        args = Some [(''major'', PyInt 0), (''minor'', PyInt 0)],
        message = ''Checking git version...''\<rparr>] \<and>
   install packages_commands pre dev debug flask_env =
     install_py_dependencies packages_commands pre dev @ symlink @ install_assets flask_env \<and>
   install_py_dependencies packages_commands pre dev =
     (if status_code (is_locked packages_commands) > 0
      then lock packages_commands pre dev else [])
     @ install_locked_dependencies packages_commands pre dev \<and>
   symlink =
     [\<lparr>func = Update_instance_path, args = None, message = ''Updating instance path...''\<rparr>,
      \<lparr>func = Symlink_project_file_or_folder, args = Some [(''target'', PyStr ''invenio.cfg'')],
        message = ''Symlinking '' @ [CHR 0x27] @ ''invenio.cfg'' @ [CHR 0x27] @ ''...''\<rparr>,
      \<lparr>func = Symlink_project_file_or_folder, args = Some [(''target'', PyStr ''templates'')],
        message = ''Symlinking '' @ [CHR 0x27] @ ''templates'' @ [CHR 0x27] @ ''...''\<rparr>,
      \<lparr>func = Symlink_project_file_or_folder, args = Some [(''target'', PyStr ''app_data'')],
        message = ''Symlinking '' @ [CHR 0x27] @ ''app_data'' @ [CHR 0x27] @ ''...''\<rparr>] \<and>
   install_assets debug =
     [\<lparr>func = Update_statics_and_assets,
        args = Some [(''force'', PyBool True), (''debug'', debug)],
        message = ''Updating statics and assets...''\<rparr>]"
  by (simp add: check_def check_dev_def install_def install_py_dependencies_def
      symlink_def install_assets_def)

text \<open>
  C10. The last step of \<open>install(pre, dev, debug, flask_env)\<close> is the assets step with
  the arguments \<open>force = True\<close> and \<open>debug = flask_env\<close>, and the \<open>debug\<close> parameter of
  \<open>install\<close> has no effect on the list.
\<close>

theorem install_assets_step_takes_flask_env:
  "last (install packages_commands pre dev debug flask_env) =
     \<lparr>func = Update_statics_and_assets,
      args = Some [(''force'', PyBool True), (''debug'', flask_env)],
      message = ''Updating statics and assets...''\<rparr> \<and>
   install packages_commands pre dev debug flask_env =
     install packages_commands pre dev debug2 flask_env"
  by (simp add: install_def install_assets_def)

section \<open>The results of the checks\<close>

















section \<open>The presence of pipenv\<close>








end
